theory Spec2Isabelle
  imports Complex_Main
begin

section \<open>Values, errors and numpy arrays\<close>

text \<open>
  The programs are \<^verbatim>\<open>src/src/solving.py\<close> and \<^verbatim>\<open>src/FisInMa/plotting/plotting.py\<close>.
  Floating-point numbers are idealised as \<^typ>\<open>real\<close>; every exception the code can raise
  is a value of \<open>error\<close>, and a function that can raise returns \<open>error + 'a\<close>.
\<close>

datatype error = IndexError | ValueError | LinAlgError | TypeError | UnboundLocalError

text \<open>
  A numpy array is its shape and its entries, addressed by index tuples. Entries at
  index tuples outside the shape carry no meaning.
\<close>

record ndarray =
  shape :: "nat list"
  elems :: "nat list \<Rightarrow> real"

definition np_zeros :: "nat list \<Rightarrow> ndarray" where
  "np_zeros sh = \<lparr>shape = sh, elems = (\<lambda>_. 0)\<rparr>"

text \<open>\<^verbatim>\<open>np.eye(n)\<close>\<close>

definition np_eye :: "nat \<Rightarrow> ndarray" where
  "np_eye n = \<lparr>shape = [n, n], elems = (\<lambda>ix. if ix ! 0 = ix ! 1 then 1 else 0)\<rparr>"

definition in_shape :: "nat list \<Rightarrow> nat list \<Rightarrow> bool" where
  "in_shape sh ix = list_all2 (<) ix sh"

text \<open>
  Row-major (C order) position of an index tuple and its inverse, which is what
  \<^verbatim>\<open>reshape\<close> preserves.
\<close>

fun ravel :: "nat list \<Rightarrow> nat list \<Rightarrow> nat" where
  "ravel (d # ds) (i # ix) = i * prod_list ds + ravel ds ix"
| "ravel _ _ = 0"

fun unravel :: "nat list \<Rightarrow> nat \<Rightarrow> nat list" where
  "unravel [] c = []"
| "unravel (d # ds) c = (c div prod_list ds) # unravel ds (c mod prod_list ds)"

text \<open>
  \<^verbatim>\<open>itertools.product(*[range(k) for k in ks])\<close>: all index tuples, in lexicographic order,
  the last index varying fastest.
\<close>

definition iter_product :: "nat list \<Rightarrow> nat list list" where
  "iter_product ks = product_lists (map (\<lambda>k. [0..<k]) ks)"

text \<open>
  \<^verbatim>\<open>a[index]\<close> for a tuple of integers, flattened in C order (\<^verbatim>\<open>np.insert\<close> flattens its
  argument anyway). Too many indices or an index out of range raise IndexError.
\<close>

definition getitem :: "ndarray \<Rightarrow> nat list \<Rightarrow> error + real list" where
  "getitem a ix =
     (if length ix \<le> length (shape a) \<and> in_shape (take (length ix) (shape a)) ix
      then Inr (map (\<lambda>rest. elems a (ix @ rest)) (iter_product (drop (length ix) (shape a))))
      else Inl IndexError)"

text \<open>
  \<^verbatim>\<open>S[(slice(None), slice(None)) + index] = V\<close> for a two-dimensional value \<open>V\<close> of shape
  \<open>(va, vb)\<close>: the value is broadcast to the selection's shape \<open>(shape S ! 0, shape S ! 1)\<close>,
  and a value that cannot be broadcast raises ValueError.
\<close>

definition setitem_slices :: "ndarray \<Rightarrow> nat list \<Rightarrow> nat \<times> nat \<Rightarrow> (nat \<Rightarrow> nat \<Rightarrow> real) \<Rightarrow> error + ndarray" where
  "setitem_slices S ix vsh V =
     (if (fst vsh = shape S ! 0 \<or> fst vsh = 1) \<and> (snd vsh = shape S ! 1 \<or> snd vsh = 1)
      then Inr (S\<lparr>elems := (\<lambda>jx. if in_shape (shape S) jx \<and> drop 2 jx = ix
                                 then V (if fst vsh = 1 then 0 else jx ! 0) (if snd vsh = 1 then 0 else jx ! 1)
                                 else elems S jx)\<rparr>)
      else Inl ValueError)"

text \<open>
  \<^verbatim>\<open>E[:, index] = v.reshape(n, 1)\<close> where \<^verbatim>\<open>index\<close> is a tuple of integers. Inside a
  subscript a tuple is a sequence, so numpy takes it as an integer array selecting
  along axis 1 (advanced indexing), not as one index per axis: the selection has shape
  \<open>(shape E ! 0, length index) + drop 2 (shape E)\<close>. An empty tuple is no integer array and
  an entry \<open>\<ge> shape E ! 1\<close> is out of range (IndexError). The value, of shape \<open>(n, 1)\<close>, is
  broadcast against the last two axes of the selection (ValueError when it does not
  fit). Where the tuple repeats an index the later position is written last.
\<close>

definition setitem_fancy :: "ndarray \<Rightarrow> nat list \<Rightarrow> nat \<Rightarrow> (nat \<Rightarrow> real) \<Rightarrow> error + ndarray" where
  "setitem_fancy E ix n v =
     (let sh = shape E; m = length ix; sel = (sh ! 0) # m # drop 2 sh in
      if length sh < 2 \<or> ix = [] then Inl IndexError
      else if \<not> list_all (\<lambda>j. j < sh ! 1) ix then Inl IndexError
      else if \<not> (n = sel ! (length sel - 2) \<or> n = 1) then Inl ValueError
      else Inr (E\<lparr>elems := (\<lambda>jx. if in_shape sh jx \<and> jx ! 1 \<in> set ix
                                 then v (if n = 1 then 0
                                         else (jx[1 := last (filter (\<lambda>a. ix ! a = jx ! 1) [0..<m])]) ! (length sel - 2))
                                 else elems E jx)\<rparr>))"

section \<open>Matrix inversion\<close>

text \<open>
  \<^verbatim>\<open>np.linalg.inv\<close> on an \<open>n \<times> n\<close> matrix, in exact arithmetic: Gauss-Jordan elimination
  of \<open>(A | I)\<close>, column by column; a column with no pivot left means the matrix is singular,
  for which numpy raises LinAlgError.
\<close>

type_synonym mat = "nat \<Rightarrow> nat \<Rightarrow> real"

definition swap_rows :: "nat \<Rightarrow> nat \<Rightarrow> mat \<Rightarrow> mat" where
  "swap_rows k p M = (\<lambda>i. if i = k then M p else if i = p then M k else M i)"

definition eliminate :: "nat \<Rightarrow> mat \<Rightarrow> mat \<Rightarrow> mat" where
  "eliminate k A M =
     (\<lambda>i j. if i = k then M k j / A k k else M i j - A i k * (M k j / A k k))"

definition gj_step :: "nat \<Rightarrow> nat \<Rightarrow> mat \<times> mat \<Rightarrow> (mat \<times> mat) option" where
  "gj_step n k AB =
     (case find (\<lambda>i. fst AB i k \<noteq> 0) [k..<n] of
        None \<Rightarrow> None
      | Some p \<Rightarrow>
          let A = swap_rows k p (fst AB); B = swap_rows k p (snd AB)
          in Some (eliminate k A A, eliminate k A B))"

fun gauss_jordan :: "nat \<Rightarrow> nat list \<Rightarrow> mat \<times> mat \<Rightarrow> (mat \<times> mat) option" where
  "gauss_jordan n [] AB = Some AB"
| "gauss_jordan n (k # ks) AB =
     (case gj_step n k AB of None \<Rightarrow> None | Some AB' \<Rightarrow> gauss_jordan n ks AB')"

definition linalg_inv :: "nat \<Rightarrow> mat \<Rightarrow> error + ndarray" where
  "linalg_inv n A =
     (case gauss_jordan n [0..<n] (A, (\<lambda>i j. if i = j then 1 else 0)) of
        None \<Rightarrow> Inl LinAlgError
      | Some AB \<Rightarrow> Inr \<lparr>shape = [n, n], elems = (\<lambda>ix. snd AB (ix ! 0) (ix ! 1))\<rparr>)"

section \<open>solving.py\<close>

text \<open>
  \<^verbatim>\<open>FischerModel\<close> (module \<^verbatim>\<open>src.data_structures\<close>) with the fields that \<^verbatim>\<open>solving.py\<close>
  reads. \<open>'f\<close> is the type of the user's callables, which are only handed to the integrator.
  The criterion \<^verbatim>\<open>fsm.observable(fsm, S, C)\<close> is stored applied to its model.
\<close>

record 'f fischer_model =
  y0_t0 :: "real list \<times> real"
  parameters :: "real list"
  constants :: "real list"
  q_values :: "real list list"
  times :: ndarray
  ode_func :: 'f
  jacobian :: 'f
  observable :: "ndarray \<Rightarrow> ndarray \<Rightarrow> real"

text \<open>
  \<^verbatim>\<open>scipy.integrate.odeint(func, y0, t, args=(Q, P, Const), Dfun=jac)\<close> is a library routine
  and a parameter of the model. It returns an array of shape \<open>(len(t), len(y0))\<close>; the
  entry \<open>[c, i]\<close> of that array is \<open>out c i\<close>.
\<close>

type_synonym 'f integrator =
  "'f \<Rightarrow> real list \<Rightarrow> real list \<Rightarrow> real list \<times> real list \<times> real list \<Rightarrow> 'f \<Rightarrow> nat \<Rightarrow> nat \<Rightarrow> real"

text \<open>One entry \<open>(t, Q, r)\<close> of \<^verbatim>\<open>solutions\<close>; \<open>r\<close> is listed row by row.\<close>

type_synonym solution = "real list \<times> real list \<times> real list list"

text \<open>An exception ends the computation: the rest runs only on a result.\<close>

definition then_do :: "error + 'a \<Rightarrow> ('a \<Rightarrow> error + 'b) \<Rightarrow> error + 'b" where
  "then_do m f = (case m of Inl e \<Rightarrow> Inl e | Inr x \<Rightarrow> f x)"

fun loop :: "('i \<Rightarrow> 's \<Rightarrow> error + 's) \<Rightarrow> 'i list \<Rightarrow> 's \<Rightarrow> error + 's" where
  "loop body [] s = Inr s"
| "loop body (i # is) s = then_do (body i s) (loop body is)"

text \<open>\<^verbatim>\<open>r = odeint(...).T[:, 1:]\<close> for one combination: row \<open>i\<close>, column \<open>c\<close>.\<close>

definition solve_r :: "'f integrator \<Rightarrow> 'f fischer_model \<Rightarrow> real list \<Rightarrow> real list \<Rightarrow> nat \<Rightarrow> nat \<Rightarrow> real" where
  "solve_r odeint fsm Q t =
     (\<lambda>i c. odeint (ode_func fsm) (fst (y0_t0 fsm)) (snd (y0_t0 fsm) # t)
               (Q, parameters fsm, constants fsm) (jacobian fsm) (Suc c) i)"

text \<open>The body of the loop of \<^verbatim>\<open>get_S_matrix\<close> (lines 25 to 38) for one index tuple.\<close>

definition get_S_body ::
  "'f integrator \<Rightarrow> 'f fischer_model \<Rightarrow> nat list \<Rightarrow> ndarray \<times> ndarray \<times> solution list
     \<Rightarrow> error + (ndarray \<times> ndarray \<times> solution list)" where
  "get_S_body odeint fsm index st =
     (let S = fst st; error_n = fst (snd st); solutions = snd (snd st);
          Q = map (\<lambda>(i, j). q_values fsm ! i ! j) (zip [0..<length index] index)
      in then_do (getitem (times fsm) index) (\<lambda>t.
      let r = solve_r odeint fsm Q t;
          a = length (fst (y0_t0 fsm));
          b = length t;
          n_t = last (shape (times fsm))
      in then_do (setitem_slices S index (a - 1, b) (\<lambda>i c. r (Suc i) c)) (\<lambda>S'.
      if a = 0 then Inl IndexError
      else if b \<noteq> n_t then Inl ValueError
      else then_do (setitem_fancy error_n index n_t (\<lambda>c. r 0 c * 0.25)) (\<lambda>error_n'.
      Inr (S', error_n',
           solutions @ [(t, Q, map (\<lambda>i. map (\<lambda>c. r i c) [0..<b]) [0..<a])])))))"

text \<open>
  \<^verbatim>\<open>get_S_matrix\<close>. \<^verbatim>\<open>fsm.times.shape[-1]\<close> raises IndexError on a zero-dimensional array.
  After the loop, \<open>S\<close> and \<open>error_n\<close> are reshaped (C order), \<^verbatim>\<open>np.eye(N, N) * error_n**2\<close>
  scales column \<open>j\<close> of the identity by \<open>error_n[j]**2\<close>, and the result is inverted.
\<close>

definition get_S_matrix ::
  "'f integrator \<Rightarrow> 'f fischer_model \<Rightarrow> error + (ndarray \<times> ndarray \<times> solution list)" where
  "get_S_matrix odeint fsm =
     (if shape (times fsm) = [] then Inl IndexError
      else
      let n_p = length (parameters fsm);
          n_t = last (shape (times fsm));
          ks = map length (q_values fsm)
      in then_do (loop (get_S_body odeint fsm) (iter_product ks)
                   (np_zeros (n_p # n_t # ks), np_zeros (n_t # ks), [])) (\<lambda>st.
      let N = prod_list (n_t # ks);
          S = \<lparr>shape = [n_p, N],
               elems = (\<lambda>ix. elems (fst st) ((ix ! 0) # unravel (n_t # ks) (ix ! 1)))\<rparr>;
          error_n = (\<lambda>c. elems (fst (snd st)) (unravel (n_t # ks) c));
          cov_matrix = (\<lambda>i j. (if i = j then 1 else 0) * (error_n j)\<^sup>2)
      in then_do (linalg_inv N cov_matrix) (\<lambda>C. Inr (S, C, snd (snd st)))))"

definition calculate_fischer_observable ::
  "'f integrator \<Rightarrow> 'f fischer_model \<Rightarrow> bool
     \<Rightarrow> error + (real \<times> 'f fischer_model \<times> ndarray \<times> ndarray \<times> solution list)" where
  "calculate_fischer_observable odeint fsm covar =
     then_do (get_S_matrix odeint fsm) (\<lambda>(S, C, r).
        let C' = (if covar = False then np_eye (shape S ! 1) else C);
            obs = observable fsm S C'
        in Inr (obs, fsm, S, C', r))"

subsection \<open>Models with one input dimension\<close>

text \<open>
  With a single input dimension of \<open>k\<close> values, \<^verbatim>\<open>fsm.times\<close> has shape \<open>(k, n_t)\<close>, the
  index tuples are \<open>(0,), \<dots>, (k - 1,)\<close>, and the integrator returns one row for the predicted
  value followed by one row per parameter. \<open>times_at\<close>, \<open>r_at\<close> and \<open>solution_at\<close> name the
  time array, the integrator's output and the \<^verbatim>\<open>solutions\<close> entry of the \<open>j\<close>-th input value.
\<close>

definition times_at :: "'f fischer_model \<Rightarrow> nat \<Rightarrow> real list" where
  "times_at fsm j = map (\<lambda>c. elems (times fsm) [j, c]) [0..<last (shape (times fsm))]"

definition r_at :: "'f integrator \<Rightarrow> 'f fischer_model \<Rightarrow> nat \<Rightarrow> nat \<Rightarrow> nat \<Rightarrow> real" where
  "r_at odeint fsm j = solve_r odeint fsm [hd (q_values fsm) ! j] (times_at fsm j)"

definition solution_at :: "'f integrator \<Rightarrow> 'f fischer_model \<Rightarrow> nat \<Rightarrow> solution" where
  "solution_at odeint fsm j =
     (times_at fsm j, [hd (q_values fsm) ! j],
      map (\<lambda>i. map (\<lambda>c. r_at odeint fsm j i c) [0..<last (shape (times fsm))])
          [0..<length (fst (y0_t0 fsm))])"

definition one_input :: "'f fischer_model \<Rightarrow> bool" where
  "one_input fsm \<longleftrightarrow>
     length (q_values fsm) = 1 \<and>
     shape (times fsm) = [length (hd (q_values fsm)), last (shape (times fsm))] \<and>
     length (fst (y0_t0 fsm)) = Suc (length (parameters fsm))"

definition nonzero_predictions :: "'f integrator \<Rightarrow> 'f fischer_model \<Rightarrow> bool" where
  "nonzero_predictions odeint fsm \<longleftrightarrow>
     list_all (\<lambda>j. list_all (\<lambda>c. r_at odeint fsm j 0 c \<noteq> 0) [0..<last (shape (times fsm))])
       [0..<length (hd (q_values fsm))]"

text \<open>The state of the elimination on a diagonal matrix after \<open>k\<close> columns.\<close>

definition diag_state :: "(nat \<Rightarrow> real) \<Rightarrow> nat \<Rightarrow> mat \<times> mat" where
  "diag_state d k =
     (\<lambda>i j. if i = j then (if i < k then 1 else d j) else 0,
      \<lambda>i j. if i = j then (if i < k then 1 / d j else 1) else 0)"

subsection \<open>Example models\<close>

text \<open>
  A stand-in for the integrator whose output tells the input values, the time and the
  row apart: row \<open>i\<close> at time \<open>t\<close> under inputs \<open>Q\<close> is \<open>sum Q * t + i\<close>.
\<close>

definition example_odeint :: "unit integrator" where
  "example_odeint f y0 ts args jac c i = sum_list (fst args) * (ts ! c) + real i"

text \<open>
  A stand-in that starts from the initial state \<open>y0\<close> at \<open>t0\<close>: row \<open>i\<close> at time \<open>t\<close> under
  inputs \<open>Q\<close> is \<open>y0[i] + (i - sum Q) * (t - t0)\<close>, so that the predicted value (row \<open>0\<close>)
  falls from \<open>y0[0]\<close> with slope \<open>sum Q\<close>.
\<close>

definition linear_odeint :: "unit integrator" where
  "linear_odeint f y0 ts args jac c i =
     y0 ! i + (real i - sum_list (fst args)) * (ts ! c - ts ! 0)"

text \<open>
  One parameter, one input dimension with the values \<open>1, 2\<close>, and two times per input
  value, given row by row.
\<close>

definition example_fsm :: "real list list \<Rightarrow> unit fischer_model" where
  "example_fsm ts =
     \<lparr>y0_t0 = ([1, 0], 0), parameters = [0.065], constants = [], q_values = [[1, 2]],
      times = \<lparr>shape = [2, 2], elems = (\<lambda>ix. ts ! (ix ! 0) ! (ix ! 1))\<rparr>,
      ode_func = (), jacobian = (),
      observable = (\<lambda>S C. elems S [0, 1] + elems C [0, 0])\<rparr>"

text \<open>
  One parameter and two input dimensions with \<open>k1\<close> and \<open>k2\<close> values, \<open>n_t\<close> times per
  combination: combination \<open>(a, b)\<close> is measured at the times \<open>a + b + 1, a + b + 2, \<dots>\<close>
\<close>

definition example_fsm2 :: "real list \<Rightarrow> real list \<Rightarrow> nat \<Rightarrow> unit fischer_model" where
  "example_fsm2 q1 q2 n_t =
     \<lparr>y0_t0 = ([1, 0], 0), parameters = [0.065], constants = [], q_values = [q1, q2],
      times = \<lparr>shape = [length q1, length q2, n_t],
               elems = (\<lambda>ix. real (ix ! 0 + ix ! 1 + ix ! 2 + 1))\<rparr>,
      ode_func = (), jacobian = (),
      observable = (\<lambda>S C. 0)\<rparr>"

section \<open>plotting.py\<close>

subsection \<open>Floats and arrays\<close>

text \<open>
  numpy does not raise on a float division by zero: the quotient is an infinity, or
  not-a-number for \<open>0 / 0\<close>, and a RuntimeWarning is printed. The outcome of a division is
  therefore an \<open>npfloat\<close>. The sign of an infinity is the product of the signs of the two
  operands; since a zero divisor can be \<open>+0.0\<close> or \<open>-0.0\<close> and a real number does not tell
  which, \<open>Infinity\<close> stands for an infinity of either sign. An infinity or a not-a-number
  divided by a finite number stays one.
\<close>

datatype npfloat = Float real | Infinity | NaN

definition np_divide :: "real \<Rightarrow> real \<Rightarrow> npfloat" where
  "np_divide x d =
     (if d = 0 then (if x = 0 then NaN else Infinity)
      else Float (x / d))"

fun float_divide :: "npfloat \<Rightarrow> real \<Rightarrow> npfloat" where
  "float_divide (Float x) d = np_divide x d"
| "float_divide Infinity d = Infinity"
| "float_divide NaN d = NaN"

record float_array =
  fshape :: "nat list"
  felems :: "nat list \<Rightarrow> npfloat"

definition to_float :: "ndarray \<Rightarrow> float_array" where
  "to_float a = \<lparr>fshape = shape a, felems = (\<lambda>ix. Float (elems a ix))\<rparr>"

text \<open>
  \<^verbatim>\<open>np.array(rows).reshape(sh)\<close> for a list of array-likes, each given by its entries in C
  order: rows of different sizes cannot be stacked, and the reshape needs the sizes to agree.
  \<open>from_rows_infer\<close> is \<^verbatim>\<open>np.array(rows).reshape((-1,) + sh)\<close>.
\<close>

definition from_rows :: "real list list \<Rightarrow> nat list \<Rightarrow> error + ndarray" where
  "from_rows rows sh =
     (if list_all (\<lambda>r. length r = length (hd rows)) rows \<and> prod_list sh = length (concat rows)
      then Inr \<lparr>shape = sh, elems = (\<lambda>ix. concat rows ! ravel sh ix)\<rparr>
      else Inl ValueError)"

definition from_rows_infer :: "real list list \<Rightarrow> nat list \<Rightarrow> error + ndarray" where
  "from_rows_infer rows sh =
     (if 0 < prod_list sh \<and> length (concat rows) mod prod_list sh = 0
      then from_rows rows ((length (concat rows) div prod_list sh) # sh)
      else Inl ValueError)"

text \<open>\<^verbatim>\<open>a.reshape(dims + (-1,))\<close>: the last dimension is inferred, which needs the known
  dimensions to be nonzero and to divide the size.\<close>

definition reshape_last :: "ndarray \<Rightarrow> nat list \<Rightarrow> error + ndarray" where
  "reshape_last a dims =
     (let size = prod_list (shape a); known = prod_list dims in
      if 0 < known \<and> size mod known = 0
      then Inr \<lparr>shape = dims @ [size div known],
                elems = (\<lambda>ix. elems a (unravel (shape a) (ravel (dims @ [size div known]) ix)))\<rparr>
      else Inl ValueError)"

definition swapaxes :: "ndarray \<Rightarrow> nat \<Rightarrow> nat \<Rightarrow> ndarray" where
  "swapaxes a i j =
     \<lparr>shape = (shape a)[i := shape a ! j, j := shape a ! i],
      elems = (\<lambda>ix. elems a (ix[i := ix ! j, j := ix ! i]))\<rparr>"

text \<open>\<^verbatim>\<open>np.concatenate([a, b], axis=0)\<close>\<close>

definition concatenate0 :: "ndarray \<Rightarrow> ndarray \<Rightarrow> error + ndarray" where
  "concatenate0 a b =
     (if tl (shape a) = tl (shape b) \<and> 0 < length (shape a) \<and> 0 < length (shape b)
      then Inr \<lparr>shape = (hd (shape a) + hd (shape b)) # tl (shape a),
                elems = (\<lambda>ix. if hd ix < hd (shape a) then elems a ix
                               else elems b ((hd ix - hd (shape a)) # tl ix))\<rparr>
      else Inl ValueError)"

text \<open>\<^verbatim>\<open>a + b\<close>; the operands of the two sums in this file have been reshaped to the same
  shape before.\<close>

definition np_add :: "ndarray \<Rightarrow> ndarray \<Rightarrow> error + ndarray" where
  "np_add a b =
     (if shape a = shape b
      then Inr \<lparr>shape = shape a, elems = (\<lambda>ix. elems a ix + elems b ix)\<rparr>
      else Inl ValueError)"

text \<open>A list comprehension whose element expression can raise.\<close>

fun collect :: "('a \<Rightarrow> error + 'b) \<Rightarrow> 'a list \<Rightarrow> error + 'b list" where
  "collect f [] = Inr []"
| "collect f (x # xs) = then_do (f x) (\<lambda>y. then_do (collect f xs) (\<lambda>ys. Inr (y # ys)))"

subsection \<open>The results object\<close>

text \<open>
  One entry \<^verbatim>\<open>sol\<close> of \<^verbatim>\<open>fsr.individual_results\<close>, with the attributes the function reads
  (\<^verbatim>\<open>sol.parameters\<close> is \<open>sol_parameters\<close> here), and \<^verbatim>\<open>fsr\<close> itself. An optional callable is
  \<open>None\<close> or a function of \<^verbatim>\<open>(t, x, inputs, parameters, ode_args)\<close> whose result is given by
  its entries in C order. \<^verbatim>\<open>ode_dfdx0\<close> is only tested for being callable and passed on.
\<close>

type_synonym obs_fn = "real \<Rightarrow> real list \<Rightarrow> real list \<Rightarrow> real list \<Rightarrow> real list \<Rightarrow> real list"

record individual_result =
  ode_x0 :: "real list"
  ode_t0 :: real
  inputs :: "real list"
  sol_parameters :: "real list"
  ode_args :: "real list"
  sensitivities :: ndarray

record fisher_results =
  ode_dfdx0 :: "unit option"
  obs_fun :: "obs_fn option"
  obs_dgdp :: "obs_fn option"
  obs_dgdx :: "obs_fn option"
  obs_dgdx0 :: "obs_fn option"
  relative_sensitivities :: bool
  individual_results :: "individual_result list"

definition callable :: "'a option \<Rightarrow> bool" where
  "callable f = (case f of None \<Rightarrow> False | Some g \<Rightarrow> True)"

text \<open>Calling an attribute that is \<open>None\<close> raises TypeError.\<close>

definition call :: "obs_fn option \<Rightarrow> real \<Rightarrow> real list \<Rightarrow> individual_result \<Rightarrow> error + real list" where
  "call f t x sol =
     (case f of None \<Rightarrow> Inl TypeError
      | Some g \<Rightarrow> Inr (g t x (inputs sol) (sol_parameters sol) (ode_args sol)))"

text \<open>
  \<^verbatim>\<open>scipy.integrate.solve_ivp(ode_rhs, (times_low, times_high), x0_full, t_eval=t_values,
  args=(\<dots>))\<close> for the model at hand and one \<^verbatim>\<open>sol\<close> is a parameter: from the initial vector
  it gives \<^verbatim>\<open>res.t\<close> and \<^verbatim>\<open>res.y\<close>, the latter of shape \<open>(len(x0_full), len(res.t))\<close> with entry
  \<open>[i, c]\<close> written \<open>y i c\<close>, or it raises.
\<close>

type_synonym ivp = "individual_result \<Rightarrow> real list \<Rightarrow> error + (real list \<times> (nat \<Rightarrow> nat \<Rightarrow> real))"

subsection \<open>\<^verbatim>\<open>plot_all_sensitivities2\<close>\<close>

text \<open>Lines 121 to 127.\<close>

definition observable_given :: "fisher_results \<Rightarrow> bool" where
  "observable_given fsr \<longleftrightarrow>
     callable (obs_fun fsr) \<and> callable (obs_dgdp fsr) \<and> callable (obs_dgdx fsr)"

definition n_p_full_of :: "fisher_results \<Rightarrow> individual_result \<Rightarrow> nat" where
  "n_p_full_of fsr sol =
     length (sol_parameters sol) + (if callable (ode_dfdx0 fsr) then length (ode_x0 sol) else 0)"

definition n_obs_of :: "fisher_results \<Rightarrow> individual_result \<Rightarrow> nat" where
  "n_obs_of fsr sol =
     (case obs_fun fsr of
        None \<Rightarrow> length (ode_x0 sol)
      | Some g \<Rightarrow>
          if observable_given fsr
          then length (g (ode_t0 sol) (ode_x0 sol) (inputs sol) (sol_parameters sol) (ode_args sol))
          else length (ode_x0 sol))"

text \<open>Lines 129 to 133 (and 76 to 80 of \<^verbatim>\<open>plot_all_sensitivities\<close>, which are the same).\<close>

definition x0_full :: "fisher_results \<Rightarrow> individual_result \<Rightarrow> real list" where
  "x0_full fsr sol =
     (let n_x = length (ode_x0 sol); n_p = length (sol_parameters sol) in
      if callable (ode_dfdx0 fsr)
      then ode_x0 sol @ replicate (n_x * n_p) 0 @ replicate n_x 1
      else ode_x0 sol @ replicate (n_x * n_p) 0)"

text \<open>
  Lines 135 to 143: the integration, and the split of \<^verbatim>\<open>res.y\<close> into the state \<open>x\<close> of shape
  \<open>(n_x, n_t)\<close> and the state sensitivities \<open>s\<close> of shape \<open>(n_p_full, n_x, n_t)\<close>.
\<close>

definition state_solution ::
  "ivp \<Rightarrow> fisher_results \<Rightarrow> individual_result \<Rightarrow> error + (real list \<times> ndarray \<times> ndarray)" where
  "state_solution solve_ivp fsr sol =
     (let n_x = length (ode_x0 sol); rows = length (x0_full fsr sol) in
      then_do (solve_ivp sol (x0_full fsr sol)) (\<lambda>res.
      let t = fst res; y = snd res; n_t = length t in
      then_do (reshape_last \<lparr>shape = [n_x, n_t], elems = (\<lambda>ix. y (ix ! 0) (ix ! 1))\<rparr> [n_x]) (\<lambda>x.
      then_do (reshape_last \<lparr>shape = [rows - n_x, n_t], elems = (\<lambda>ix. y (n_x + ix ! 0) (ix ! 1))\<rparr>
                 [n_x, n_p_full_of fsr sol]) (\<lambda>r.
      Inr (t, x, swapaxes r 0 1)))))"

text \<open>\<^verbatim>\<open>x[:, i]\<close>\<close>

definition column :: "ndarray \<Rightarrow> nat \<Rightarrow> real list" where
  "column x i = map (\<lambda>a. elems x [a, i]) [0..<shape x ! 0]"

text \<open>
  \<^verbatim>\<open>np.array(G, dtype=float).reshape((n_x, n_obs)).T.dot(s[lo:hi, :, i].T)\<close>, of shape
  \<open>(n_obs, hi - lo)\<close>, by its entries in C order.
\<close>

definition dgdx_dot :: "real list \<Rightarrow> nat \<Rightarrow> nat \<Rightarrow> ndarray \<Rightarrow> nat \<Rightarrow> nat \<Rightarrow> nat \<Rightarrow> error + real list" where
  "dgdx_dot G n_x n_obs s lo hi i =
     (if length G = n_x * n_obs
      then (if i < shape s ! 2
            then Inr (concat (map (\<lambda>j. map (\<lambda>k. sum_list (map (\<lambda>a. G ! (a * n_obs + j) * elems s [k, a, i])
                                                              [0..<n_x]))
                                         [lo..<hi])
                              [0..<n_obs]))
            else Inl IndexError)
      else Inl ValueError)"

text \<open>
  Lines 146 to 159: \<^verbatim>\<open>term1\<close> and \<^verbatim>\<open>term2\<close>, both of shape \<open>(n_p, n_obs, n_t)\<close>, are assigned
  only when the three observable callables are given; otherwise the names stay unbound
  (\<open>None\<close> here).
\<close>

definition observable_terms ::
  "fisher_results \<Rightarrow> individual_result \<Rightarrow> nat \<Rightarrow> real list \<Rightarrow> ndarray \<Rightarrow> ndarray
     \<Rightarrow> error + (ndarray \<times> ndarray) option" where
  "observable_terms fsr sol n_obs t x s =
     (let n_x = length (ode_x0 sol); n_p = length (sol_parameters sol); n_t = length t in
      if observable_given fsr
      then
        then_do (collect (\<lambda>i. call (obs_dgdp fsr) (t ! i) (column x i) sol) [0..<n_t]) (\<lambda>rows1.
        then_do (from_rows rows1 [n_t, n_obs, n_p]) (\<lambda>a1.
        then_do (collect (\<lambda>i. then_do (call (obs_dgdx fsr) (t ! i) (column x i) sol)
                                 (\<lambda>G. dgdx_dot G n_x n_obs s 0 (min n_p (shape s ! 0)) i)) [0..<n_t]) (\<lambda>rows2.
        then_do (from_rows rows2 [n_t, n_obs, n_p]) (\<lambda>a2.
        Inr (Some (swapaxes a1 0 2, swapaxes a2 0 2))))))
      else Inr None)"

text \<open>Lines 161 to 182. Reading an unbound local name raises UnboundLocalError.\<close>

definition combine_terms ::
  "fisher_results \<Rightarrow> individual_result \<Rightarrow> nat \<Rightarrow> real list \<Rightarrow> ndarray \<Rightarrow> ndarray
     \<Rightarrow> (ndarray \<times> ndarray) option \<Rightarrow> error + ndarray" where
  "combine_terms fsr sol n_obs t x s terms =
     (let n_x = length (ode_x0 sol); n_p = length (sol_parameters sol); n_t = length t in
      if callable (ode_dfdx0 fsr) \<and> callable (obs_dgdx0 fsr)
      then
        then_do (collect (\<lambda>i. call (obs_dgdx0 fsr) (t ! i) (column x i) sol) [0..<n_t]) (\<lambda>rows1.
        then_do (from_rows_infer rows1 [n_obs, n_x]) (\<lambda>a1.
        then_do (collect (\<lambda>i. then_do (call (obs_dgdx fsr) (t ! i) (column x i) sol)
                                 (\<lambda>G. dgdx_dot G n_x n_obs s (min n_p (shape s ! 0)) (shape s ! 0) i)) [0..<n_t]) (\<lambda>rows2.
        then_do (from_rows rows2 [n_t, n_obs, n_x]) (\<lambda>a2.
        case terms of
          None \<Rightarrow> Inl UnboundLocalError
        | Some term12 \<Rightarrow>
            then_do (concatenate0 (fst term12) (swapaxes a1 0 2)) (\<lambda>term1_full.
            then_do (concatenate0 (snd term12) (swapaxes a2 0 2)) (\<lambda>term2_full.
            np_add term1_full term2_full))))))
      else
        (case terms of
           None \<Rightarrow> Inl UnboundLocalError
         | Some term12 \<Rightarrow> np_add (fst term12) (snd term12)))"

text \<open>Line 184: the observable at every time, of shape \<open>(n_obs, n_t)\<close>.\<close>

definition observable_values ::
  "fisher_results \<Rightarrow> individual_result \<Rightarrow> nat \<Rightarrow> real list \<Rightarrow> ndarray \<Rightarrow> error + ndarray" where
  "observable_values fsr sol n_obs t x =
     then_do (collect (\<lambda>i. call (obs_fun fsr) (t ! i) (column x i) sol) [0..<length t]) (\<lambda>rows.
     then_do (from_rows_infer rows [n_obs]) (\<lambda>a. Inr (swapaxes a 0 1)))"

text \<open>
  Lines 185 to 197, the relative sensitivities. \<^verbatim>\<open>s[ii] *= p\<close> scales row \<open>ii\<close> in place and
  \<^verbatim>\<open>s[(slice(None), ii)] /= o\<close> divides \<open>s[:, ii]\<close> in place by the row \<open>o = obs[ii]\<close>, which is
  broadcast along the last axis.
\<close>

definition relative_params :: "fisher_results \<Rightarrow> individual_result \<Rightarrow> real list" where
  "relative_params fsr sol =
     (if callable (ode_dfdx0 fsr) then sol_parameters sol @ ode_x0 sol else sol_parameters sol)"

definition imul_row :: "real list \<Rightarrow> nat \<Rightarrow> ndarray \<Rightarrow> error + ndarray" where
  "imul_row params ii s =
     (if ii < shape s ! 0
      then Inr (s\<lparr>elems := (\<lambda>jx. if jx ! 0 = ii then elems s jx * params ! ii else elems s jx)\<rparr>)
      else Inl IndexError)"

definition idiv_column :: "ndarray \<Rightarrow> nat \<Rightarrow> float_array \<Rightarrow> error + float_array" where
  "idiv_column obs ii s =
     (if ii < fshape s ! 1
      then (if shape obs ! 1 = fshape s ! 2
            then Inr (s\<lparr>felems := (\<lambda>jx. if jx ! 1 = ii
                                          then float_divide (felems s jx) (elems obs [ii, jx ! 2])
                                          else felems s jx)\<rparr>)
            else if shape obs ! 1 = 1
            then Inr (s\<lparr>felems := (\<lambda>jx. if jx ! 1 = ii
                                          then float_divide (felems s jx) (elems obs [ii, 0])
                                          else felems s jx)\<rparr>)
            else Inl ValueError)
      else Inl IndexError)"

definition relative_scaling ::
  "fisher_results \<Rightarrow> individual_result \<Rightarrow> ndarray \<Rightarrow> ndarray \<Rightarrow> error + float_array" where
  "relative_scaling fsr sol s obs =
     (if relative_sensitivities fsr
      then
        let params = relative_params fsr sol in
        then_do (loop (imul_row params) [0..<length params] s) (\<lambda>s1.
        loop (idiv_column obs) [0..<shape obs ! 0] (to_float s1))
      else Inr (to_float s))"

text \<open>The array \<open>s\<close> that the function plots for one \<^verbatim>\<open>sol\<close> (lines 121 to 197).\<close>

definition sensitivities2 :: "ivp \<Rightarrow> fisher_results \<Rightarrow> individual_result \<Rightarrow> error + float_array" where
  "sensitivities2 solve_ivp fsr sol =
     (let n_obs = n_obs_of fsr sol in
      then_do (state_solution solve_ivp fsr sol) (\<lambda>txs.
      let t = fst txs; x = fst (snd txs); s = snd (snd txs) in
      then_do (observable_terms fsr sol n_obs t x s) (\<lambda>terms.
      then_do (combine_terms fsr sol n_obs t x s terms) (\<lambda>s'.
      then_do (observable_values fsr sol n_obs t x) (\<lambda>obs.
      relative_scaling fsr sol s' obs)))))"

text \<open>
  Lines 199 to 201: for an observable \<open>j\<close> and a parameter \<open>k\<close> the sampled points
  \<^verbatim>\<open>sol.sensitivities[k, j]\<close> are read and the curve \<^verbatim>\<open>s[k, j]\<close> is plotted. The function
  returns nothing; its result here is the list of the plotted curves, in order.
\<close>

definition curve :: "individual_result \<Rightarrow> float_array \<Rightarrow> nat list \<Rightarrow> error + npfloat list" where
  "curve sol s jk =
     then_do (getitem (sensitivities sol) [jk ! 1, jk ! 0]) (\<lambda>r.
     if jk ! 1 < fshape s ! 0 \<and> jk ! 0 < fshape s ! 1
     then Inr (map (\<lambda>c. felems s [jk ! 1, jk ! 0, c]) [0..<fshape s ! 2])
     else Inl IndexError)"

definition plot_all_sensitivities2 :: "ivp \<Rightarrow> fisher_results \<Rightarrow> error + npfloat list list" where
  "plot_all_sensitivities2 solve_ivp fsr =
     loop (\<lambda>sol curves.
             then_do (sensitivities2 solve_ivp fsr sol) (\<lambda>s.
             then_do (collect (curve sol s) (iter_product [n_obs_of fsr sol, n_p_full_of fsr sol])) (\<lambda>cs.
             Inr (curves @ cs))))
          (individual_results fsr) []"

subsection \<open>Example results\<close>

text \<open>
  A stand-in for the solver with \<open>n_t\<close> time points \<open>0, 1, \<dots>\<close>: row \<open>i\<close> of \<^verbatim>\<open>res.y\<close> starts at
  its initial value and grows by one per time point.
\<close>

definition example_ivp :: "nat \<Rightarrow> ivp" where
  "example_ivp n_t sol x0 = Inr (map real [0..<n_t], (\<lambda>i c. x0 ! i + real c))"

definition example_sol :: "real list \<Rightarrow> real list \<Rightarrow> individual_result" where
  "example_sol x0 ps =
     \<lparr>ode_x0 = x0, ode_t0 = 0, inputs = [], sol_parameters = ps, ode_args = [],
      sensitivities = np_zeros [length ps + length x0, length x0, 2]\<rparr>"

text \<open>
  Results with or without the observable \<open>g(x) = x\<^sub>0 - 1\<close>, for which \<open>dg/dp\<close> is given as
  \<open>1\<close> and \<open>dg/dx\<close> as \<open>1\<close>.
\<close>

definition example_fsr :: "unit option \<Rightarrow> bool \<Rightarrow> bool \<Rightarrow> individual_result list \<Rightarrow> fisher_results" where
  "example_fsr dfdx0 with_obs rel sols =
     \<lparr>ode_dfdx0 = dfdx0,
      obs_fun = (if with_obs then Some (\<lambda>t x q p c. [x ! 0 - 1]) else None),
      obs_dgdp = (if with_obs then Some (\<lambda>t x q p c. [1]) else None),
      obs_dgdx = (if with_obs then Some (\<lambda>t x q p c. [1]) else None),
      obs_dgdx0 = None,
      relative_sensitivities = rel,
      individual_results = sols\<rparr>"

section \<open>Properties of the matrix inversion\<close>

text \<open>
  On a diagonal matrix the elimination never swaps rows: it divides row \<open>k\<close> by its diagonal
  entry, and it stops at the first zero on the diagonal.
\<close>

lemma find_first: "k < n \<Longrightarrow> P k \<Longrightarrow> find P [k..<n] = Some k"
  by (simp add: upt_conv_Cons)

lemma gj_step_diag:
  assumes "k < n" "d k \<noteq> 0"
  shows "gj_step n k (diag_state d k) = Some (diag_state d (Suc k))"
proof -
  have f: "find (\<lambda>i. fst (diag_state d k) i k \<noteq> 0) [k..<n] = Some k"
    using assms by (intro find_first) (simp_all add: diag_state_def)
  have sw: "swap_rows k k M = M" for M :: mat
    by (simp add: swap_rows_def fun_eq_iff)
  have A: "eliminate k (fst (diag_state d k)) (fst (diag_state d k)) = fst (diag_state d (Suc k))"
    using assms by (auto simp: eliminate_def diag_state_def fun_eq_iff less_Suc_eq)
  have B: "eliminate k (fst (diag_state d k)) (snd (diag_state d k)) = snd (diag_state d (Suc k))"
    using assms by (auto simp: eliminate_def diag_state_def fun_eq_iff less_Suc_eq)
  show ?thesis
    unfolding gj_step_def f by (simp add: sw A B)
qed

lemma gj_step_diag_zero:
  assumes "k < n" "d k = 0"
  shows "gj_step n k (diag_state d k) = None"
proof -
  have "find (\<lambda>i. fst (diag_state d k) i k \<noteq> 0) [k..<n] = None"
    using assms by (auto simp: find_None_iff diag_state_def)
  then show ?thesis by (simp add: gj_step_def)
qed

lemma gauss_jordan_diag:
  assumes "\<forall>j. k \<le> j \<and> j < n \<longrightarrow> d j \<noteq> 0" "k \<le> n"
  shows "gauss_jordan n [k..<n] (diag_state d k) = Some (diag_state d n)"
  using assms
proof (induction "n - k" arbitrary: k)
  case 0
  then show ?case by simp
next
  case (Suc x)
  then have kn: "k < n" by simp
  have dk: "d k \<noteq> 0" using Suc.prems kn by simp
  have "gauss_jordan n [Suc k..<n] (diag_state d (Suc k)) = Some (diag_state d n)"
    using Suc by (intro Suc.hyps(1)) auto
  then show ?case
    using kn dk by (simp add: upt_conv_Cons gj_step_diag [of k n d])
qed

lemma gauss_jordan_diag_zero:
  assumes "k \<le> z" "z < n" "d z = 0"
  shows "gauss_jordan n [k..<n] (diag_state d k) = None"
  using assms
proof (induction "n - k" arbitrary: k)
  case 0
  then show ?case by simp
next
  case (Suc x)
  then have kn: "k < n" by simp
  show ?case
  proof (cases "d k = 0")
    case True
    then show ?thesis using kn by (simp add: upt_conv_Cons gj_step_diag_zero [of k n d])
  next
    case False
    then have "k \<noteq> z" using Suc.prems by auto
    then have "gauss_jordan n [Suc k..<n] (diag_state d (Suc k)) = None"
      using Suc by (intro Suc.hyps(1)) auto
    then show ?thesis using kn False by (simp add: upt_conv_Cons gj_step_diag [of k n d])
  qed
qed

lemma diag_state_0: "((\<lambda>i j. (if i = j then 1 else 0) * d j), (\<lambda>i j. if i = j then 1 else 0)) = diag_state d 0"
  by (simp add: diag_state_def fun_eq_iff)

lemma linalg_inv_diag:
  assumes "\<forall>j<n. d j \<noteq> 0"
  shows "linalg_inv n (\<lambda>i j. (if i = j then 1 else 0) * d j) =
         Inr \<lparr>shape = [n, n],
              elems = (\<lambda>ix. if ix ! 0 = ix ! 1 then (if ix ! 0 < n then 1 / d (ix ! 1) else 1) else 0)\<rparr>"
proof -
  have g: "gauss_jordan n [0..<n] (diag_state d 0) = Some (diag_state d n)"
    using assms by (intro gauss_jordan_diag) auto
  show ?thesis
    unfolding linalg_inv_def diag_state_0 g by (simp add: diag_state_def fun_eq_iff)
qed

lemma linalg_inv_diag_zero:
  assumes "z < n" "d z = 0"
  shows "linalg_inv n (\<lambda>i j. (if i = j then 1 else 0) * d j) = Inl LinAlgError"
proof -
  have g: "gauss_jordan n [0..<n] (diag_state d 0) = None"
    using assms by (intro gauss_jordan_diag_zero [of 0 z]) auto
  show ?thesis
    unfolding linalg_inv_def diag_state_0 g by simp
qed

section \<open>Properties of \<open>get_S_matrix\<close> with one input dimension\<close>

lemma iter_product_one: "iter_product [k] = map (\<lambda>j. [j]) [0..<k]"
  by (simp add: iter_product_def map_concat o_def)

lemma in_shape_Cons: "in_shape (d # ds) jx \<longleftrightarrow> (\<exists>i ix. jx = i # ix \<and> i < d \<and> in_shape ds ix)"
  by (cases jx) (auto simp: in_shape_def)

lemma in_shape_Nil: "in_shape [] jx \<longleftrightarrow> jx = []"
  by (simp add: in_shape_def)

lemma getitem_one:
  assumes "shape a = [k, n]" "j < k"
  shows "getitem a [j] = Inr (map (\<lambda>c. elems a [j, c]) [0..<n])"
  using assms by (simp add: getitem_def in_shape_Cons in_shape_Nil iter_product_one o_def)

lemma body_one:
  assumes w: "one_input fsm" and j: "j < length (hd (q_values fsm))"
    and S: "shape S = [length (parameters fsm), last (shape (times fsm)), length (hd (q_values fsm))]"
    and E: "shape E = [last (shape (times fsm)), length (hd (q_values fsm))]"
  shows "\<exists>S' E'. get_S_body odeint fsm [j] (S, E, sols) = Inr (S', E', sols @ [solution_at odeint fsm j])
     \<and> shape S' = shape S \<and> shape E' = shape E
     \<and> (\<forall>i c j'. i < length (parameters fsm) \<longrightarrow> c < last (shape (times fsm)) \<longrightarrow> j' < length (hd (q_values fsm)) \<longrightarrow>
          elems S' [i, c, j'] = (if j' = j then r_at odeint fsm j (Suc i) c else elems S [i, c, j']))
     \<and> (\<forall>c j'. c < last (shape (times fsm)) \<longrightarrow> j' < length (hd (q_values fsm)) \<longrightarrow>
          elems E' [c, j'] = (if j' = j then r_at odeint fsm j 0 c * 0.25 else elems E [c, j']))"
proof -
  obtain q where q: "q_values fsm = [q]"
    using w by (cases "q_values fsm") (auto simp: one_input_def)
  have sh: "shape (times fsm) = [length q, last (shape (times fsm))]"
    and y: "length (fst (y0_t0 fsm)) = Suc (length (parameters fsm))"
    using w q by (simp_all add: one_input_def)
  have g: "getitem (times fsm) [j] = Inr (times_at fsm j)"
    using getitem_one [OF sh] j q by (simp add: times_at_def)
  have Q: "map (\<lambda>(i, j). q_values fsm ! i ! j) (zip [0..<length [j]] [j]) = [q ! j]"
    by (simp add: q)
  have lt: "length (times_at fsm j) = last (shape (times fsm))"
    by (simp add: times_at_def)
  have r: "solve_r odeint fsm [q ! j] (times_at fsm j) = r_at odeint fsm j"
    by (simp add: r_at_def q)
  show ?thesis
    unfolding get_S_body_def Let_def fst_conv snd_conv g Q then_do_def sum.case lt r y
    using j q S E
    apply (simp add: setitem_slices_def setitem_fancy_def Let_def solution_at_def y in_shape_Cons in_shape_Nil)
    apply (auto simp: in_shape_Cons in_shape_Nil)
    done
qed

lemma loop_one:
  assumes w: "one_input fsm" and js: "\<forall>j\<in>set js. j < length (hd (q_values fsm))"
    and S: "shape S = [length (parameters fsm), last (shape (times fsm)), length (hd (q_values fsm))]"
    and E: "shape E = [last (shape (times fsm)), length (hd (q_values fsm))]"
  shows "\<exists>S' E'. loop (get_S_body odeint fsm) (map (\<lambda>j. [j]) js) (S, E, sols) =
            Inr (S', E', sols @ map (solution_at odeint fsm) js)
     \<and> shape S' = shape S \<and> shape E' = shape E
     \<and> (\<forall>i c j. i < length (parameters fsm) \<longrightarrow> c < last (shape (times fsm)) \<longrightarrow> j < length (hd (q_values fsm)) \<longrightarrow>
          elems S' [i, c, j] = (if j \<in> set js then r_at odeint fsm j (Suc i) c else elems S [i, c, j]))
     \<and> (\<forall>c j. c < last (shape (times fsm)) \<longrightarrow> j < length (hd (q_values fsm)) \<longrightarrow>
          elems E' [c, j] = (if j \<in> set js then r_at odeint fsm j 0 c * 0.25 else elems E [c, j]))"
  using js S E
proof (induction js arbitrary: S E sols)
  case Nil
  then show ?case by simp
next
  case (Cons j js)
  have j: "j < length (hd (q_values fsm))" using Cons.prems by simp
  obtain S1 E1 where b: "get_S_body odeint fsm [j] (S, E, sols) = Inr (S1, E1, sols @ [solution_at odeint fsm j])"
    and s1: "shape S1 = shape S" and e1: "shape E1 = shape E"
    and vS: "\<And>i c j'. i < length (parameters fsm) \<Longrightarrow> c < last (shape (times fsm)) \<Longrightarrow> j' < length (hd (q_values fsm)) \<Longrightarrow>
          elems S1 [i, c, j'] = (if j' = j then r_at odeint fsm j (Suc i) c else elems S [i, c, j'])"
    and vE: "\<And>c j'. c < last (shape (times fsm)) \<Longrightarrow> j' < length (hd (q_values fsm)) \<Longrightarrow>
          elems E1 [c, j'] = (if j' = j then r_at odeint fsm j 0 c * 0.25 else elems E [c, j'])"
    using body_one [OF w j Cons.prems(2) Cons.prems(3), of odeint sols] by blast
  obtain S' E' where l: "loop (get_S_body odeint fsm) (map (\<lambda>j. [j]) js) (S1, E1, sols @ [solution_at odeint fsm j]) =
            Inr (S', E', (sols @ [solution_at odeint fsm j]) @ map (solution_at odeint fsm) js)"
    and s2: "shape S' = shape S1" and e2: "shape E' = shape E1"
    and wS: "\<And>i c j'. i < length (parameters fsm) \<Longrightarrow> c < last (shape (times fsm)) \<Longrightarrow> j' < length (hd (q_values fsm)) \<Longrightarrow>
          elems S' [i, c, j'] = (if j' \<in> set js then r_at odeint fsm j' (Suc i) c else elems S1 [i, c, j'])"
    and wE: "\<And>c j'. c < last (shape (times fsm)) \<Longrightarrow> j' < length (hd (q_values fsm)) \<Longrightarrow>
          elems E' [c, j'] = (if j' \<in> set js then r_at odeint fsm j' 0 c * 0.25 else elems E1 [c, j'])"
    using Cons.IH [of S1 E1 "sols @ [solution_at odeint fsm j]"] Cons.prems s1 e1 by auto
  show ?case
  proof (intro exI conjI allI impI)
    show "loop (get_S_body odeint fsm) (map (\<lambda>j. [j]) (j # js)) (S, E, sols) =
            Inr (S', E', sols @ map (solution_at odeint fsm) (j # js))"
      using b l by (simp add: then_do_def)
    show "shape S' = shape S" using s1 s2 by simp
    show "shape E' = shape E" using e1 e2 by simp
  next
    fix i c j'
    assume "i < length (parameters fsm)" "c < last (shape (times fsm))" "j' < length (hd (q_values fsm))"
    then show "elems S' [i, c, j'] = (if j' \<in> set (j # js) then r_at odeint fsm j' (Suc i) c else elems S [i, c, j'])"
      using wS vS by auto
  next
    fix c j'
    assume "c < last (shape (times fsm))" "j' < length (hd (q_values fsm))"
    then show "elems E' [c, j'] = (if j' \<in> set (j # js) then r_at odeint fsm j' 0 c * 0.25 else elems E [c, j'])"
      using wE vE by auto
  qed
qed

lemma unravel_two: "unravel [n, k] c = [c div k, c mod k]"
  by simp

lemma get_S_matrix_loop_one:
  assumes w: "one_input fsm"
  shows "\<exists>S' E'. loop (get_S_body odeint fsm) (iter_product (map length (q_values fsm)))
            (np_zeros (length (parameters fsm) # last (shape (times fsm)) # map length (q_values fsm)),
             np_zeros (last (shape (times fsm)) # map length (q_values fsm)), []) =
            Inr (S', E', map (solution_at odeint fsm) [0..<length (hd (q_values fsm))])
     \<and> (\<forall>i c j. i < length (parameters fsm) \<longrightarrow> c < last (shape (times fsm)) \<longrightarrow> j < length (hd (q_values fsm)) \<longrightarrow>
          elems S' [i, c, j] = r_at odeint fsm j (Suc i) c)
     \<and> (\<forall>c j. c < last (shape (times fsm)) \<longrightarrow> j < length (hd (q_values fsm)) \<longrightarrow>
          elems E' [c, j] = r_at odeint fsm j 0 c * 0.25)"
proof -
  obtain q where q: "q_values fsm = [q]"
    using w by (cases "q_values fsm") (auto simp: one_input_def)
  have "\<exists>S' E'. loop (get_S_body odeint fsm) (map (\<lambda>j. [j]) [0..<length q])
            (np_zeros [length (parameters fsm), last (shape (times fsm)), length q],
             np_zeros [last (shape (times fsm)), length q], []) =
            Inr (S', E', [] @ map (solution_at odeint fsm) [0..<length q])
     \<and> shape S' = shape (np_zeros [length (parameters fsm), last (shape (times fsm)), length q])
     \<and> shape E' = shape (np_zeros [last (shape (times fsm)), length q])
     \<and> (\<forall>i c j. i < length (parameters fsm) \<longrightarrow> c < last (shape (times fsm)) \<longrightarrow> j < length (hd (q_values fsm)) \<longrightarrow>
          elems S' [i, c, j] = (if j \<in> set [0..<length q] then r_at odeint fsm j (Suc i) c
              else elems (np_zeros [length (parameters fsm), last (shape (times fsm)), length q]) [i, c, j]))
     \<and> (\<forall>c j. c < last (shape (times fsm)) \<longrightarrow> j < length (hd (q_values fsm)) \<longrightarrow>
          elems E' [c, j] = (if j \<in> set [0..<length q] then r_at odeint fsm j 0 c * 0.25
              else elems (np_zeros [last (shape (times fsm)), length q]) [c, j]))"
    using q by (intro loop_one [OF w]) (simp_all add: np_zeros_def)
  then show ?thesis
    using q by (simp add: iter_product_one) blast
qed

lemma get_S_matrix_one:
  assumes w: "one_input fsm" and nz: "nonzero_predictions odeint fsm"
  shows "\<exists>S C. get_S_matrix odeint fsm =
            Inr (S, C, map (solution_at odeint fsm) [0..<length (hd (q_values fsm))])
     \<and> shape S = [length (parameters fsm), last (shape (times fsm)) * length (hd (q_values fsm))]
     \<and> shape C = [last (shape (times fsm)) * length (hd (q_values fsm)),
                   last (shape (times fsm)) * length (hd (q_values fsm))]
     \<and> (\<forall>i c j. i < length (parameters fsm) \<longrightarrow> c < last (shape (times fsm)) \<longrightarrow> j < length (hd (q_values fsm)) \<longrightarrow>
          elems S [i, c * length (hd (q_values fsm)) + j] = r_at odeint fsm j (Suc i) c)
     \<and> (\<forall>c j c' j'. c < last (shape (times fsm)) \<longrightarrow> j < length (hd (q_values fsm)) \<longrightarrow>
          c' < last (shape (times fsm)) \<longrightarrow> j' < length (hd (q_values fsm)) \<longrightarrow>
          elems C [c * length (hd (q_values fsm)) + j, c' * length (hd (q_values fsm)) + j'] =
            (if c = c' \<and> j = j' then 1 / (0.25 * r_at odeint fsm j 0 c)\<^sup>2 else 0))"
proof -
  define k where "k = length (hd (q_values fsm))"
  define n where "n = last (shape (times fsm))"
  obtain q where q: "q_values fsm = [q]"
    using w by (cases "q_values fsm") (auto simp: one_input_def)
  have kq: "length q = k" by (simp add: k_def q)
  have sh: "shape (times fsm) \<noteq> []" using w by (auto simp: one_input_def)
  obtain S' E' where l: "loop (get_S_body odeint fsm) (iter_product (map length (q_values fsm)))
            (np_zeros (length (parameters fsm) # n # map length (q_values fsm)),
             np_zeros (n # map length (q_values fsm)), []) =
            Inr (S', E', map (solution_at odeint fsm) [0..<k])"
    and vS: "\<And>i c j. i < length (parameters fsm) \<Longrightarrow> c < n \<Longrightarrow> j < k \<Longrightarrow>
          elems S' [i, c, j] = r_at odeint fsm j (Suc i) c"
    and vE: "\<And>c j. c < n \<Longrightarrow> j < k \<Longrightarrow> elems E' [c, j] = r_at odeint fsm j 0 c * 0.25"
    using get_S_matrix_loop_one [OF w, of odeint] unfolding k_def n_def by blast
  have pos: "r_at odeint fsm j 0 c \<noteq> 0" if "c < n" "j < k" for c j
    using nz that by (simp add: nonzero_predictions_def list_all_iff k_def n_def)
  define e where "e = (\<lambda>c. elems E' [c div k, c mod k])"
  have e: "e a = r_at odeint fsm (a mod k) 0 (a div k) * 0.25" if "a < n * k" for a
  proof -
    have "0 < k" using that by (cases k) auto
    then have "a mod k < k" by simp
    moreover have "a div k < n" using that by (simp add: less_mult_imp_div_less)
    ultimately show ?thesis by (simp add: e_def vE)
  qed
  have enz: "\<forall>a < n * k. (e a)\<^sup>2 \<noteq> 0"
  proof (intro allI impI)
    fix a assume a: "a < n * k"
    have "0 < k" using a by (cases k) auto
    then have "a mod k < k" by simp
    moreover have "a div k < n" using a by (simp add: less_mult_imp_div_less)
    ultimately have "r_at odeint fsm (a mod k) 0 (a div k) \<noteq> 0"
      using pos [of "a div k" "a mod k"] by simp
    then show "(e a)\<^sup>2 \<noteq> 0" by (simp add: e [OF a])
  qed
  have inv: "linalg_inv (n * k) (\<lambda>i j. (if i = j then 1 else 0) * (e j)\<^sup>2) =
         Inr \<lparr>shape = [n * k, n * k],
              elems = (\<lambda>ix. if ix ! 0 = ix ! 1 then (if ix ! 0 < n * k then 1 / (e (ix ! 1))\<^sup>2 else 1) else 0)\<rparr>"
    using linalg_inv_diag [of "n * k" "\<lambda>j. (e j)\<^sup>2"] enz by simp
  have g: "get_S_matrix odeint fsm =
     Inr (\<lparr>shape = [length (parameters fsm), n * k],
           elems = (\<lambda>ix. elems S' ((ix ! 0) # unravel (n # map length (q_values fsm)) (ix ! 1)))\<rparr>,
          \<lparr>shape = [n * k, n * k],
              elems = (\<lambda>ix. if ix ! 0 = ix ! 1 then (if ix ! 0 < n * k then 1 / (e (ix ! 1))\<^sup>2 else 1) else 0)\<rparr>,
          map (solution_at odeint fsm) [0..<k])"
    unfolding get_S_matrix_def Let_def n_def [symmetric] l then_do_def sum.case fst_conv snd_conv e_def
    using sh inv [unfolded e_def] by (simp add: q kq)
  show ?thesis
    unfolding g k_def [symmetric] n_def [symmetric]
  proof (intro exI conjI allI impI)
    fix i c j assume a: "i < length (parameters fsm)" "c < n" "j < k"
    then show "elems \<lparr>shape = [length (parameters fsm), n * k],
           elems = (\<lambda>ix. elems S' ((ix ! 0) # unravel (n # map length (q_values fsm)) (ix ! 1)))\<rparr> [i, c * k + j] = r_at odeint fsm j (Suc i) c"
      by (simp add: q kq vS)
  next
    fix c j c' j' assume a: "c < n" "j < k" "c' < n" "j' < k"
    have lt: "c' * k + j' < n * k"
    proof -
      have "c' * k + j' < c' * k + k" using a by simp
      also have "\<dots> = Suc c' * k" by simp
      also have "\<dots> \<le> n * k" using a by (intro mult_le_mono1) simp
      finally show ?thesis .
    qed
    have lt2: "c * k + j < n * k"
    proof -
      have "c * k + j < c * k + k" using a by simp
      also have "\<dots> = Suc c * k" by simp
      also have "\<dots> \<le> n * k" using a by (intro mult_le_mono1) simp
      finally show ?thesis .
    qed
    have eq: "c * k + j = c' * k + j' \<longleftrightarrow> c = c' \<and> j = j'"
    proof
      assume h: "c * k + j = c' * k + j'"
      have "(c * k + j) div k = c" "(c * k + j) mod k = j" using a by simp_all
      moreover have "(c' * k + j') div k = c'" "(c' * k + j') mod k = j'" using a by simp_all
      ultimately show "c = c' \<and> j = j'" using h by metis
    qed simp
    show "elems \<lparr>shape = [n * k, n * k],
              elems = (\<lambda>ix. if ix ! 0 = ix ! 1 then (if ix ! 0 < n * k then 1 / (e (ix ! 1))\<^sup>2 else 1) else 0)\<rparr>
            [c * k + j, c' * k + j'] = (if c = c' \<and> j = j' then 1 / (0.25 * r_at odeint fsm j 0 c)\<^sup>2 else 0)"
    proof (cases "c = c' \<and> j = j'")
      case True
      have "e (c' * k + j') = r_at odeint fsm j' 0 c' * 0.25"
        using a by (simp add: e [OF lt])
      then have "1 / (e (c' * k + j'))\<^sup>2 = 1 / (0.25 * r_at odeint fsm j' 0 c')\<^sup>2"
        by (simp only: mult.commute)
      then show ?thesis using True lt by simp
    next
      case False
      then show ?thesis using eq by auto
    qed
  qed simp_all
qed

lemma get_S_matrix_one_zero:
  assumes w: "one_input fsm" and c: "c < last (shape (times fsm))" and j: "j < length (hd (q_values fsm))"
    and z: "r_at odeint fsm j 0 c = 0"
  shows "get_S_matrix odeint fsm = Inl LinAlgError"
proof -
  define k where "k = length (hd (q_values fsm))"
  define n where "n = last (shape (times fsm))"
  obtain q where q: "q_values fsm = [q]"
    using w by (cases "q_values fsm") (auto simp: one_input_def)
  have kq: "length q = k" by (simp add: k_def q)
  have sh: "shape (times fsm) \<noteq> []" using w by (auto simp: one_input_def)
  obtain S' E' where l: "loop (get_S_body odeint fsm) (iter_product (map length (q_values fsm)))
            (np_zeros (length (parameters fsm) # n # map length (q_values fsm)),
             np_zeros (n # map length (q_values fsm)), []) =
            Inr (S', E', map (solution_at odeint fsm) [0..<k])"
    and vE: "\<And>c j. c < n \<Longrightarrow> j < k \<Longrightarrow> elems E' [c, j] = r_at odeint fsm j 0 c * 0.25"
    using get_S_matrix_loop_one [OF w, of odeint] unfolding k_def n_def by blast
  define e where "e = (\<lambda>c. elems E' [c div k, c mod k])"
  have lt: "c * k + j < n * k"
  proof -
    have "c * k + j < c * k + k" using j by (simp add: k_def)
    also have "\<dots> = Suc c * k" by simp
    also have "\<dots> \<le> n * k" using c by (intro mult_le_mono1) (simp add: n_def)
    finally show ?thesis .
  qed
  have "e (c * k + j) = 0"
    using c j z by (simp add: e_def vE n_def k_def [symmetric])
  then have inv: "linalg_inv (n * k) (\<lambda>i j. (if i = j then 1 else 0) * (e j)\<^sup>2) = Inl LinAlgError"
    using linalg_inv_diag_zero [of "c * k + j" "n * k" "\<lambda>j. (e j)\<^sup>2"] lt by simp
  show ?thesis
    unfolding get_S_matrix_def Let_def n_def [symmetric] l then_do_def sum.case fst_conv snd_conv e_def
    using sh inv [unfolded e_def] by (simp add: q kq)
qed

section \<open>The example models\<close>

lemma example_one_input: "one_input (example_fsm ts)"
  by (simp add: one_input_def example_fsm_def)

lemma example_r_at:
  "r_at example_odeint (example_fsm ts) j i c = ([1, 2] ! j) * ([ts ! j ! 0, ts ! j ! 1] ! c) + real i"
  by (simp add: r_at_def solve_r_def example_odeint_def example_fsm_def times_at_def
      upt_conv_Cons numeral_2_eq_2)

lemma example_dims:
  "last (shape (times (example_fsm ts))) = 2" "length (hd (q_values (example_fsm ts))) = 2"
  "length (parameters (example_fsm ts)) = 1"
  by (simp_all add: example_fsm_def)

lemma example_nonzero: "nonzero_predictions example_odeint (example_fsm [[1, 2], [3, 4]])"
  unfolding nonzero_predictions_def example_dims example_r_at
  by (simp add: upt_conv_Cons numeral_2_eq_2)

section \<open>\<^verbatim>\<open>calculate_fischer_observable\<close>\<close>

text \<open>
  C10. Called with \<^verbatim>\<open>covar=False\<close> (the default), \<^verbatim>\<open>calculate_fischer_observable\<close> drops
  the inverse covariance matrix that \<^verbatim>\<open>get_S_matrix\<close> returned: the criterion is evaluated
  on \<open>S\<close> and the identity matrix whose size is the number of columns of \<open>S\<close>, and that
  identity matrix is returned in place of \<open>C\<close>. The model, \<open>S\<close> and the solutions are those
  of \<^verbatim>\<open>get_S_matrix\<close>, unchanged.
\<close>

theorem covar_false_identity:
  assumes "get_S_matrix odeint fsm = Inr (S, C, r)"
  shows "calculate_fischer_observable odeint fsm False =
           Inr (observable fsm S \<lparr>shape = [shape S ! 1, shape S ! 1],
                                   elems = (\<lambda>ix. if ix ! 0 = ix ! 1 then 1 else 0)\<rparr>,
                fsm, S,
                \<lparr>shape = [shape S ! 1, shape S ! 1], elems = (\<lambda>ix. if ix ! 0 = ix ! 1 then 1 else 0)\<rparr>,
                r)"
  using assms by (simp add: calculate_fischer_observable_def then_do_def np_eye_def Let_def)

theorem covar_false_identity_witness:
  "\<exists>S C r. get_S_matrix example_odeint (example_fsm [[1, 2], [3, 4]]) = Inr (S, C, r)
     \<and> calculate_fischer_observable example_odeint (example_fsm [[1, 2], [3, 4]]) False =
           Inr (observable (example_fsm [[1, 2], [3, 4]]) S \<lparr>shape = [shape S ! 1, shape S ! 1],
                                   elems = (\<lambda>ix. if ix ! 0 = ix ! 1 then 1 else 0)\<rparr>,
                example_fsm [[1, 2], [3, 4]], S,
                \<lparr>shape = [shape S ! 1, shape S ! 1], elems = (\<lambda>ix. if ix ! 0 = ix ! 1 then 1 else 0)\<rparr>,
                r)"
proof -
  obtain S C where g: "get_S_matrix example_odeint (example_fsm [[1, 2], [3, 4]]) =
      Inr (S, C, map (solution_at example_odeint (example_fsm [[1, 2], [3, 4]]))
                   [0..<length (hd (q_values (example_fsm [[1, 2], [3, 4]])))])"
    using get_S_matrix_one [OF example_one_input example_nonzero] by blast
  show ?thesis
    using covar_false_identity [OF g] g by blast
qed

section \<open>\<^verbatim>\<open>get_S_matrix\<close>: the inverse covariance matrix\<close>

subsection \<open>A predicted value of zero\<close>

lemma linear_r_at:
  "r_at linear_odeint (example_fsm ts) j i c =
     [1, 0] ! i + (real i - [1, 2] ! j) * ([ts ! j ! 0, ts ! j ! 1] ! c)"
  by (simp add: r_at_def solve_r_def linear_odeint_def example_fsm_def times_at_def
      upt_conv_Cons numeral_2_eq_2)

text \<open>
  C2. There is no floor on the error entries: \<^verbatim>\<open>error_n\<close> is \<open>0.25\<close> times the predicted
  value and nothing else. Take a model with one input dimension of \<open>k\<close> values, \<^verbatim>\<open>times\<close> of
  shape \<open>(k, n_t)\<close>, and an initial state of \<open>n_p + 1\<close> entries (the predicted value and one
  sensitivity per parameter). As soon as the predicted value \<open>r[0][c]\<close> of one input value
  \<open>j\<close> is exactly zero, the error entry of that sample is zero, the covariance matrix
  \<^verbatim>\<open>np.eye(N, N) * error_n**2\<close> has a zero on its diagonal, and \<^verbatim>\<open>np.linalg.inv\<close> raises
  LinAlgError: \<^verbatim>\<open>get_S_matrix\<close> returns no \<open>C\<close> at all.
\<close>

theorem zero_prediction_raises:
  assumes "length (q_values fsm) = 1"
    and "shape (times fsm) = [length (hd (q_values fsm)), n_t]"
    and "length (fst (y0_t0 fsm)) = Suc (length (parameters fsm))"
    and "j < length (hd (q_values fsm))" and "c < n_t"
    and "r_at odeint fsm j 0 c = 0"
  shows "get_S_matrix odeint fsm = Inl LinAlgError"
proof -
  have "one_input fsm"
    using assms(1-3) by (simp add: one_input_def)
  moreover have "c < last (shape (times fsm))"
    using assms(2,5) by simp
  ultimately show ?thesis
    using assms(4,6) by (intro get_S_matrix_one_zero [of fsm c j odeint])
qed

text \<open>
  The example model measured at the increasing times \<open>1, 2\<close> and \<open>3, 4\<close>, all after
  \<open>t0 = 0\<close>, with the stand-in that starts from \<open>y0 = [1, 0]\<close>: the prediction of the first
  input value \<open>1\<close> is \<open>1 - t\<close>, which is zero at its first time.
\<close>

theorem zero_prediction_raises_witness:
  "length (q_values (example_fsm [[1, 2], [3, 4]])) = 1
   \<and> shape (times (example_fsm [[1, 2], [3, 4]])) =
        [length (hd (q_values (example_fsm [[1, 2], [3, 4]]))), 2]
   \<and> length (fst (y0_t0 (example_fsm [[1, 2], [3, 4]]))) =
        Suc (length (parameters (example_fsm [[1, 2], [3, 4]])))
   \<and> (0::nat) < length (hd (q_values (example_fsm [[1, 2], [3, 4]])))
   \<and> (0::nat) < 2
   \<and> r_at linear_odeint (example_fsm [[1, 2], [3, 4]]) 0 0 0 = 0
   \<and> get_S_matrix linear_odeint (example_fsm [[1, 2], [3, 4]]) = Inl LinAlgError"
proof -
  have h: "length (q_values (example_fsm [[1, 2], [3, 4]])) = 1"
    "shape (times (example_fsm [[1, 2], [3, 4]])) =
        [length (hd (q_values (example_fsm [[1, 2], [3, 4]]))), 2]"
    "length (fst (y0_t0 (example_fsm [[1, 2], [3, 4]]))) =
        Suc (length (parameters (example_fsm [[1, 2], [3, 4]])))"
    "(0::nat) < length (hd (q_values (example_fsm [[1, 2], [3, 4]])))"
    "(0::nat) < 2"
    by (simp_all add: example_fsm_def)
  have z: "r_at linear_odeint (example_fsm [[1, 2], [3, 4]]) 0 0 0 = 0"
    by (simp add: linear_r_at)
  show ?thesis
    using zero_prediction_raises [OF h z] h z by simp
qed

text \<open>
  The same model measured at the increasing times \<open>2, 3\<close> and \<open>1/2, 4\<close>: the prediction of
  the second input value \<open>2\<close> is \<open>1 - 2 t\<close>, which is zero at its first time \<open>1/2\<close>, and no
  inverse covariance matrix is returned.
\<close>

theorem zero_prediction_no_floor:
  "r_at linear_odeint (example_fsm [[2, 3], [1 / 2, 4]]) 1 0 0 = 0
   \<and> get_S_matrix linear_odeint (example_fsm [[2, 3], [1 / 2, 4]]) = Inl LinAlgError
   \<and> (\<nexists>S C sols. get_S_matrix linear_odeint (example_fsm [[2, 3], [1 / 2, 4]]) = Inr (S, C, sols))"
proof -
  have z: "r_at linear_odeint (example_fsm [[2, 3], [1 / 2, 4]]) 1 0 0 = 0"
    by (simp add: linear_r_at)
  have "get_S_matrix linear_odeint (example_fsm [[2, 3], [1 / 2, 4]]) = Inl LinAlgError"
    by (rule get_S_matrix_one_zero [OF example_one_input _ _ z]) (simp_all add: example_dims)
  then show ?thesis using z by simp
qed

subsection \<open>The layout of the columns of \<open>S\<close>\<close>

text \<open>
  C1. \<open>S\<close> has one row per parameter and \<open>n_t * k\<close> columns, but the array is allocated
  as \<open>(n_p, n_t, k1, \<dots>, km)\<close>, time before the input indices, so that after the reshape
  the column of time \<open>c\<close> and input value \<open>j\<close> is \<open>c * k + j\<close>: the columns of one time are
  contiguous and the design points vary within them. On the example model the sensitivities
  of the first design point are \<open>2, 3\<close> and those of the second are \<open>7, 9\<close>; the row of
  \<open>S\<close> is \<open>2, 7, 3, 9\<close>, and not \<open>2, 3, 7, 9\<close>.
\<close>

theorem S_columns_time_major:
  "\<exists>S C. get_S_matrix example_odeint (example_fsm [[1, 2], [3, 4]]) =
            Inr (S, C, [([1, 2], [1], [[1, 2], [2, 3]]), ([3, 4], [2], [[6, 8], [7, 9]])])
     \<and> shape S = [1, 4]
     \<and> map (\<lambda>c. elems S [0, c]) [0, 1, 2, 3] = [2, 7, 3, 9]"
proof -
  let ?fsm = "example_fsm [[1, 2], [3, 4]]"
  obtain S C where g: "get_S_matrix example_odeint ?fsm =
      Inr (S, C, map (solution_at example_odeint ?fsm) [0..<length (hd (q_values ?fsm))])"
    and sh: "shape S = [length (parameters ?fsm), last (shape (times ?fsm)) * length (hd (q_values ?fsm))]"
    and v: "\<And>i c j. i < length (parameters ?fsm) \<Longrightarrow> c < last (shape (times ?fsm)) \<Longrightarrow>
              j < length (hd (q_values ?fsm)) \<Longrightarrow>
              elems S [i, c * length (hd (q_values ?fsm)) + j] = r_at example_odeint ?fsm j (Suc i) c"
    using get_S_matrix_one [OF example_one_input example_nonzero] by blast
  have sols: "map (solution_at example_odeint ?fsm) [0..<length (hd (q_values ?fsm))] =
      [([1, 2], [1], [[1, 2], [2, 3]]), ([3, 4], [2], [[6, 8], [7, 9]])]"
    unfolding example_dims solution_at_def example_r_at
    by (simp add: upt_conv_Cons numeral_2_eq_2 times_at_def example_fsm_def)
  have "elems S [0, 0 * 2 + 0] = 2" "elems S [0, 0 * 2 + 1] = 7"
    "elems S [0, 1 * 2 + 0] = 3" "elems S [0, 1 * 2 + 1] = 9"
    using v [of 0 0 0] v [of 0 0 1] v [of 0 1 0] v [of 0 1 1]
    by (simp_all add: example_dims example_r_at)
  then have "map (\<lambda>c. elems S [0, c]) [0, 1, 2, 3] = [2, 7, 3, 9]"
    by simp
  then show ?thesis
    using g sh unfolding sols by (simp add: example_dims)
qed

section \<open>\<^verbatim>\<open>get_S_matrix\<close> with two input dimensions\<close>

lemma iter_product_2_2: "iter_product [2, 2] = [[0, 0], [0, 1], [1, 0], [1, 1]]"
  by (simp add: iter_product_def upt_conv_Cons numeral_2_eq_2)

lemma body_two_inputs_three_times:
  "get_S_body example_odeint (example_fsm2 [1, 2] [3, 4] 3) [0, 0]
     (np_zeros [1, 3, 2, 2], np_zeros [3, 2, 2], []) = Inl ValueError"
  by (simp add: get_S_body_def getitem_def setitem_slices_def setitem_fancy_def example_fsm2_def
      Let_def then_do_def in_shape_def np_zeros_def iter_product_def)

text \<open>
  C7. The index tuples are enumerated in lexicographic order, the last index varying
  fastest, but with two input dimensions of two values each and three times per
  combination the loop does not get past the first combination: \<^verbatim>\<open>error_n[:, index]\<close>
  selects along axis 1 with the tuple as an integer array, the selection has shape
  \<open>(3, 2, 2)\<close>, and the value of shape \<open>(3, 1)\<close> cannot be broadcast to it. \<^verbatim>\<open>get_S_matrix\<close>
  raises ValueError and returns no solutions list.
\<close>

theorem two_inputs_three_times_raises:
  "iter_product (map length (q_values (example_fsm2 [1, 2] [3, 4] 3))) = [[0, 0], [0, 1], [1, 0], [1, 1]]
   \<and> get_S_matrix example_odeint (example_fsm2 [1, 2] [3, 4] 3) = Inl ValueError"
proof -
  have d: "map length (q_values (example_fsm2 [1, 2] [3, 4] 3)) = [2, 2]"
    "length (parameters (example_fsm2 [1, 2] [3, 4] 3)) = 1"
    "last (shape (times (example_fsm2 [1, 2] [3, 4] 3))) = 3"
    "shape (times (example_fsm2 [1, 2] [3, 4] 3)) \<noteq> []"
    by (simp_all add: example_fsm2_def)
  show ?thesis
    unfolding get_S_matrix_def Let_def d iter_product_2_2 loop.simps body_two_inputs_three_times
    using d(4) by (simp add: then_do_def)
qed

lemma iter_product_2_1: "iter_product [2, 1] = [[0, 0], [1, 0]]"
  by (simp add: iter_product_def upt_conv_Cons numeral_2_eq_2)

lemma loop_two_inputs_two_times:
  "\<exists>S' E'. loop (get_S_body example_odeint (example_fsm2 [1, 2] [3] 2)) [[0, 0], [1, 0]]
       (np_zeros [1, 2, 2, 1], np_zeros [2, 2, 1], []) =
     Inr (S', E', [([1, 2], [1, 3], [[4, 8], [5, 9]]), ([2, 3], [2, 3], [[10, 15], [11, 16]])])
   \<and> elems E' [0, 0, 0] = (15 / 4) \<and> elems E' [0, 1, 0] = (5 / 2)
   \<and> elems E' [1, 0, 0] = (15 / 4) \<and> elems E' [1, 1, 0] = (5 / 2)"
  by (simp add: get_S_body_def getitem_def setitem_slices_def setitem_fancy_def example_fsm2_def
      Let_def then_do_def in_shape_def np_zeros_def iter_product_def solve_r_def example_odeint_def
      upt_conv_Cons numeral_2_eq_2)

text \<open>
  C8. With two input dimensions of two and one values and two times per combination the
  assignment \<^verbatim>\<open>error_n[:, index]\<close> does broadcast, and it writes the predicted values of one
  combination along axis 1 (the first input index) for every time. The two combinations
  predict \<open>4, 8\<close> and \<open>10, 15\<close>; the errors end up as \<open>15/4, 5/2, 15/4, 5/2\<close>, all taken from
  the second combination, and the entry of \<open>C\<close> for the first sample is \<open>1 / (15/4)\<^sup>2\<close>, not
  \<open>1 / (0.25 * 4)\<^sup>2\<close>.
\<close>

theorem two_inputs_covariance_mixed:
  "\<exists>S C. get_S_matrix example_odeint (example_fsm2 [1, 2] [3] 2) =
           Inr (S, C, [([1, 2], [1, 3], [[4, 8], [5, 9]]), ([2, 3], [2, 3], [[10, 15], [11, 16]])])
     \<and> shape C = [4, 4]
     \<and> map (\<lambda>i. elems C [i, i]) [0, 1, 2, 3] = [1 / (15 / 4)\<^sup>2, 1 / (5 / 2)\<^sup>2, 1 / (15 / 4)\<^sup>2, 1 / (5 / 2)\<^sup>2]
     \<and> elems C [0, 0] \<noteq> 1 / (0.25 * 4)\<^sup>2"
proof -
  let ?fsm = "example_fsm2 [1, 2] [3] 2"
  have d: "map length (q_values ?fsm) = [2, 1]" "length (parameters ?fsm) = 1"
    "last (shape (times ?fsm)) = 2"
    by (simp_all add: example_fsm2_def)
  have sh: "shape (times ?fsm) \<noteq> []"
    by (simp add: example_fsm2_def)
  obtain S' E' where l: "loop (get_S_body example_odeint ?fsm) [[0, 0], [1, 0]]
       (np_zeros [1, 2, 2, 1], np_zeros [2, 2, 1], []) =
     Inr (S', E', [([1, 2], [1, 3], [[4, 8], [5, 9]]), ([2, 3], [2, 3], [[10, 15], [11, 16]])])"
    and vE: "elems E' [0, 0, 0] = (15 / 4)" "elems E' [0, 1, 0] = (5 / 2)"
      "elems E' [1, 0, 0] = (15 / 4)" "elems E' [1, 1, 0] = (5 / 2)"
    using loop_two_inputs_two_times by blast
  define e where "e = (\<lambda>c. elems E' (unravel [2, 2, 1] c))"
  have e: "e 0 = (15 / 4)" "e 1 = (5 / 2)" "e 2 = (15 / 4)" "e 3 = (5 / 2)"
    using vE by (simp_all add: e_def)
  have e1: "e (Suc 0) = 5 / 2"
    using e(2) by simp
  have four: "j = 0 \<or> j = 1 \<or> j = 2 \<or> j = 3" if "j < 4" for j :: nat
    using that by linarith
  have enz: "\<forall>j<4. (e j)\<^sup>2 \<noteq> 0"
    using four e by fastforce
  have inv: "linalg_inv 4 (\<lambda>i j. (if i = j then 1 else 0) * (e j)\<^sup>2) =
         Inr \<lparr>shape = [4, 4],
              elems = (\<lambda>ix. if ix ! 0 = ix ! 1 then (if ix ! 0 < 4 then 1 / (e (ix ! 1))\<^sup>2 else 1) else 0)\<rparr>"
    using linalg_inv_diag [of 4 "\<lambda>j. (e j)\<^sup>2"] enz by simp
  have g: "get_S_matrix example_odeint ?fsm =
     Inr (\<lparr>shape = [1, 4], elems = (\<lambda>ix. elems S' ((ix ! 0) # unravel [2, 2, 1] (ix ! 1)))\<rparr>,
          \<lparr>shape = [4, 4],
              elems = (\<lambda>ix. if ix ! 0 = ix ! 1 then (if ix ! 0 < 4 then 1 / (e (ix ! 1))\<^sup>2 else 1) else 0)\<rparr>,
          [([1, 2], [1, 3], [[4, 8], [5, 9]]), ([2, 3], [2, 3], [[10, 15], [11, 16]])])"
    unfolding get_S_matrix_def Let_def d iter_product_2_1 l then_do_def sum.case fst_conv snd_conv e_def
    using sh inv [unfolded e_def] by simp
  show ?thesis
    unfolding g by (intro exI conjI, rule refl) (simp_all add: e e1 power2_eq_square)
qed

section \<open>\<^verbatim>\<open>plot_all_sensitivities2\<close>\<close>

subsection \<open>The augmented initial vector\<close>

text \<open>
  C3. With \<^verbatim>\<open>ode_dfdx0\<close> given, the initial vector is the state, \<open>n_x * n_p\<close> zeros and
  \<open>n_x\<close> ones (\<^verbatim>\<open>np.ones(n_x)\<close>): its length is \<open>n_x + n_x * n_p + n_x\<close>, and for two states the
  last block is \<open>1, 1\<close> and not the flattened identity \<open>1, 0, 0, 1\<close>. The function itself then
  reshapes the sensitivity rows of the solution to \<open>(n_x, n_p + n_x, -1)\<close>, which needs
  \<open>n_x * (n_p + n_x)\<close> of them: with two states, one parameter and the fifty time points of
  \<^verbatim>\<open>np.linspace\<close> the reshape raises ValueError.
\<close>

theorem x0_full_ones:
  "x0_full (example_fsr (Some ()) True False []) (example_sol [3, 5] [2]) = [3, 5, 0, 0, 1, 1]
   \<and> x0_full (example_fsr (Some ()) True False []) (example_sol [3, 5] [2]) \<noteq> [3, 5, 0, 0, 1, 0, 0, 1]
   \<and> state_solution (example_ivp 50) (example_fsr (Some ()) True False []) (example_sol [3, 5] [2]) =
       Inl ValueError"
  by (simp add: state_solution_def x0_full_def example_ivp_def example_fsr_def example_sol_def
      n_p_full_of_def callable_def reshape_last_def then_do_def Let_def)

subsection \<open>Results without an observable\<close>

lemma then_do_Inl: "(\<And>x. \<exists>e. f x = Inl e) \<Longrightarrow> \<exists>e. then_do m f = Inl e"
  by (cases m) (simp_all add: then_do_def)

lemma combine_terms_unbound: "\<exists>e. combine_terms fsr sol n_obs t x s None = Inl e"
  unfolding combine_terms_def Let_def
  by (auto intro!: then_do_Inl)

lemma sensitivities2_no_observable:
  assumes "\<not> observable_given fsr"
  shows "\<exists>e. sensitivities2 solve_ivp fsr sol = Inl e"
  unfolding sensitivities2_def Let_def
proof (rule then_do_Inl)
  fix txs
  have "observable_terms fsr sol (n_obs_of fsr sol) (fst txs) (fst (snd txs)) (snd (snd txs)) = Inr None"
    using assms by (simp add: observable_terms_def)
  then show "\<exists>e. then_do (observable_terms fsr sol (n_obs_of fsr sol) (fst txs) (fst (snd txs)) (snd (snd txs)))
            (\<lambda>terms. then_do (combine_terms fsr sol (n_obs_of fsr sol) (fst txs) (fst (snd txs)) (snd (snd txs)) terms)
               (\<lambda>s'. then_do (observable_values fsr sol (n_obs_of fsr sol) (fst txs) (fst (snd txs)))
                  (relative_scaling fsr sol s'))) = Inl e"
    using combine_terms_unbound [of fsr sol "n_obs_of fsr sol" "fst txs" "fst (snd txs)" "snd (snd txs)"]
    by (auto simp: then_do_def)
qed

lemma example_state_solution:
  "\<exists>x s. state_solution (example_ivp 2) (example_fsr None b r sols) (example_sol [1] [2]) = Inr ([0, 1], x, s)
     \<and> shape x = [1, 2] \<and> shape s = [1, 1, 2]
     \<and> elems x [0, 0] = 1 \<and> elems x [0, 1] = 2 \<and> elems s [0, 0, 0] = 0 \<and> elems s [0, 0, 1] = 1"
  by (simp add: state_solution_def x0_full_def example_ivp_def example_fsr_def example_sol_def
      n_p_full_of_def callable_def reshape_last_def swapaxes_def then_do_def Let_def
      upt_conv_Cons numeral_2_eq_2)

text \<open>
  C6. Without \<^verbatim>\<open>obs_fun\<close>, \<^verbatim>\<open>obs_dgdp\<close> and \<^verbatim>\<open>obs_dgdx\<close> the names \<^verbatim>\<open>term1\<close> and
  \<^verbatim>\<open>term2\<close> are never assigned, and both branches that build \<open>s\<close> read them: whatever the
  solver returns and whatever the other attributes are, \<^verbatim>\<open>plot_all_sensitivities2\<close> raises
  on the first entry of \<^verbatim>\<open>individual_results\<close> and plots nothing. On the example with one
  state and one parameter the exception is UnboundLocalError.
\<close>

theorem no_observable_raises:
  "(\<exists>e. plot_all_sensitivities2 solve_ivp
           (fsr\<lparr>obs_fun := None, obs_dgdp := None, obs_dgdx := None, individual_results := sol # sols\<rparr>) = Inl e)
   \<and> plot_all_sensitivities2 (example_ivp 2) (example_fsr None False False [example_sol [1] [2]]) =
       Inl UnboundLocalError"
proof
  let ?fsr = "fsr\<lparr>obs_fun := None, obs_dgdp := None, obs_dgdx := None, individual_results := sol # sols\<rparr>"
  have "\<not> observable_given ?fsr"
    by (simp add: observable_given_def callable_def)
  then obtain e where "sensitivities2 solve_ivp ?fsr sol = Inl e"
    using sensitivities2_no_observable by blast
  then show "\<exists>e. plot_all_sensitivities2 solve_ivp ?fsr = Inl e"
    by (simp add: plot_all_sensitivities2_def then_do_def)
next
  let ?fsr = "example_fsr None False False [example_sol [1] [2]]"
  obtain x s where st: "state_solution (example_ivp 2) ?fsr (example_sol [1] [2]) = Inr ([0, 1], x, s)"
    using example_state_solution by blast
  have "sensitivities2 (example_ivp 2) ?fsr (example_sol [1] [2]) = Inl UnboundLocalError"
    unfolding sensitivities2_def Let_def st
    by (simp add: then_do_def observable_terms_def combine_terms_def observable_given_def
        callable_def example_fsr_def)
  then show "plot_all_sensitivities2 (example_ivp 2) ?fsr = Inl UnboundLocalError"
    by (simp add: plot_all_sensitivities2_def then_do_def example_fsr_def)
qed

subsection \<open>Relative sensitivities\<close>





text \<open>
  The example with \<^verbatim>\<open>ode_dfdx0\<close> given and \<^verbatim>\<open>obs_dgdx0\<close> missing, in relative mode: \<open>s\<close> has
  the parameter row only, \<^verbatim>\<open>params\<close> has the parameter and the initial value, and the
  function raises IndexError.
\<close>

lemma initial_values_without_dgdx0_raise:
  "plot_all_sensitivities2 (example_ivp 2) (example_fsr (Some ()) True True [example_sol [1] [2]]) =
     Inl IndexError"
proof -
  have a: "Suc (Suc (Suc (Suc 0))) mod Suc (Suc 0) = 0"
    by (simp add: mod_Suc)
  show ?thesis
    using a
    by (simp add: plot_all_sensitivities2_def sensitivities2_def
      state_solution_def x0_full_def example_ivp_def example_fsr_def example_sol_def
      n_p_full_of_def n_obs_of_def observable_given_def callable_def call_def reshape_last_def swapaxes_def
      observable_terms_def combine_terms_def observable_values_def relative_scaling_def
      relative_params_def imul_row_def idiv_column_def to_float_def column_def dgdx_dot_def
      from_rows_def from_rows_infer_def np_add_def curve_def getitem_def in_shape_def iter_product_def
      np_zeros_def np_divide_def
      then_do_def Let_def upt_conv_Cons numeral_2_eq_2)
qed




end
